theory Spec2Isabelle
  imports Complex_Main
begin

section \<open>The Gaussian process classifier of GP.ipynb\<close>

text \<open>
  The class \<open>GPC\<close> of the notebook is embedded method by method. Three conventions hold
  throughout.
  \<^item> Numbers are real numbers: the source computes with IEEE doubles, and their rounding
    is not part of the embedding, so that a theorem here speaks of the source only as
    far as it does not rest on exact arithmetic. Where an array of the source would hold
    an infinity or a nan (a division by zero, a square beyond the largest double, the
    square root of a negative number) the embedding returns \<open>Inl NonFinite\<close> and follows
    the source no further.
  \<^item> A two-dimensional array is the list of its rows; an array with no rows is taken to
    have no columns. A column (\<open>n \<times> 1\<close>) and a flat array of length \<open>n\<close> are both a list
    of \<open>n\<close> reals; the labels \<open>y\<close> are a column, as the docstrings of the class say.
  \<^item> \<open>numpy.linalg.pinv\<close>, \<open>numpy.linalg.inv\<close>, \<open>numpy.linalg.slogdet\<close> and
    \<open>scipy.optimize.minimize\<close> are library code: they are parameters of the embedding.
\<close>

subsection \<open>Errors\<close>

datatype error =
    AttributeError string  \<comment> \<open>an attribute of \<open>self\<close> that was never assigned\<close>
  | NameError string       \<comment> \<open>a module-level name that is not bound\<close>
  | TypeError              \<comment> \<open>\<open>None\<close> is subscripted\<close>
  | ValueError             \<comment> \<open>operand shapes that numpy refuses\<close>
  | LinAlgError            \<comment> \<open>\<open>numpy.linalg.inv\<close> on a singular matrix\<close>
  | NonFinite              \<comment> \<open>an infinity or a nan arises\<close>
  | NotFittedError         \<comment> \<open>named by the specification; no statement of the source raises it\<close>

definition and_then :: "error + 'a \<Rightarrow> ('a \<Rightarrow> error + 'b) \<Rightarrow> error + 'b" where
  "and_then r f = (case r of Inl e \<Rightarrow> Inl e | Inr v \<Rightarrow> f v)"

subsection \<open>Arrays\<close>

type_synonym vec = "real list"
type_synonym mat = "real list list"

text \<open>\<open>theta[0]\<close> is the length scale, \<open>theta[1]\<close> the signal standard deviation.\<close>

type_synonym theta = "real \<times> real"

definition nrows :: "mat \<Rightarrow> nat" where
  "nrows A = length A"

definition ncols :: "mat \<Rightarrow> nat" where
  "ncols A = (case A of [] \<Rightarrow> 0 | r # _ \<Rightarrow> length r)"

definition is_mat :: "nat \<Rightarrow> nat \<Rightarrow> mat \<Rightarrow> bool" where
  "is_mat r c A \<longleftrightarrow> length A = r \<and> list_all (\<lambda>row. length row = c) A"

definition mk_vec :: "nat \<Rightarrow> (nat \<Rightarrow> real) \<Rightarrow> vec" where
  "mk_vec n f = map f [0..<n]"

definition mk_mat :: "nat \<Rightarrow> nat \<Rightarrow> (nat \<Rightarrow> nat \<Rightarrow> real) \<Rightarrow> mat" where
  "mk_mat r c f = map (\<lambda>i. map (f i) [0..<c]) [0..<r]"

definition eye :: "nat \<Rightarrow> mat" where
  "eye n = mk_mat n n (\<lambda>i j. if i = j then 1 else 0)"

definition zeros_like :: "vec \<Rightarrow> vec" where
  "zeros_like v = map (\<lambda>_. 0) v"

definition diag :: "vec \<Rightarrow> mat" where
  "diag r = mk_mat (length r) (length r) (\<lambda>i j. if i = j then r ! i else 0)"

definition smul :: "real \<Rightarrow> mat \<Rightarrow> mat" where
  "smul c A = map (map (\<lambda>x. c * x)) A"

definition col_sums :: "mat \<Rightarrow> vec" where
  "col_sums A = mk_vec (ncols A) (\<lambda>j. \<Sum>i<nrows A. A ! i ! j)"

text \<open>
  Products check the inner dimension, as \<open>@\<close> and \<open>dot\<close> do: a mismatch raises
  \<open>ValueError\<close>.
\<close>

definition dot :: "vec \<Rightarrow> vec \<Rightarrow> error + real" where
  "dot u v = (if length u \<noteq> length v then Inl ValueError
              else Inr (\<Sum>k<length u. u ! k * v ! k))"

definition matmul :: "mat \<Rightarrow> mat \<Rightarrow> error + mat" where
  "matmul A B = (if ncols A \<noteq> nrows B then Inl ValueError
                 else Inr (mk_mat (nrows A) (ncols B) (\<lambda>i j. \<Sum>k<nrows B. A ! i ! k * B ! k ! j)))"

definition mat_vec :: "mat \<Rightarrow> vec \<Rightarrow> error + vec" where
  "mat_vec A v = (if ncols A \<noteq> length v then Inl ValueError
                  else Inr (mk_vec (nrows A) (\<lambda>i. \<Sum>k<length v. A ! i ! k * v ! k)))"

text \<open>\<open>np.dot(A, B.T)\<close> and \<open>A.T.dot(v)\<close>, without the transposed array in between.\<close>

definition matmul_T :: "mat \<Rightarrow> mat \<Rightarrow> error + mat" where
  "matmul_T A B = (if ncols A \<noteq> ncols B then Inl ValueError
                   else Inr (mk_mat (nrows A) (nrows B) (\<lambda>i j. \<Sum>k<ncols A. A ! i ! k * B ! j ! k)))"

definition matT_vec :: "mat \<Rightarrow> vec \<Rightarrow> error + vec" where
  "matT_vec A v = (if nrows A \<noteq> length v then Inl ValueError
                   else Inr (mk_vec (ncols A) (\<lambda>j. \<Sum>k<length v. A ! k ! j * v ! k)))"

definition vec_mat :: "vec \<Rightarrow> mat \<Rightarrow> error + vec" where
  "vec_mat v A = (if length v \<noteq> nrows A then Inl ValueError
                  else Inr (mk_vec (ncols A) (\<lambda>j. \<Sum>k<length v. v ! k * A ! k ! j)))"

text \<open>
  Elementwise operations broadcast: two extents agree when they are equal or one of them
  is 1, and the operand of extent 1 is repeated.
\<close>

definition bdim :: "nat \<Rightarrow> nat \<Rightarrow> nat option" where
  "bdim a b = (if a = b \<or> b = 1 then Some a else if a = 1 then Some b else None)"

definition bidx :: "nat \<Rightarrow> nat \<Rightarrow> nat" where
  "bidx n i = (if n = 1 then 0 else i)"

definition vec_bin :: "(real \<Rightarrow> real \<Rightarrow> real) \<Rightarrow> vec \<Rightarrow> vec \<Rightarrow> error + vec" where
  "vec_bin f u v =
     (case bdim (length u) (length v) of
        None \<Rightarrow> Inl ValueError
      | Some n \<Rightarrow> Inr (mk_vec n (\<lambda>i. f (u ! bidx (length u) i) (v ! bidx (length v) i))))"

definition mat_bin :: "(real \<Rightarrow> real \<Rightarrow> real) \<Rightarrow> mat \<Rightarrow> mat \<Rightarrow> error + mat" where
  "mat_bin f A B =
     (case bdim (nrows A) (nrows B) of
        None \<Rightarrow> Inl ValueError
      | Some r \<Rightarrow>
          (case bdim (ncols A) (ncols B) of
             None \<Rightarrow> Inl ValueError
           | Some c \<Rightarrow>
               Inr (mk_mat r c (\<lambda>i j. f (A ! bidx (nrows A) i ! bidx (ncols A) j)
                                        (B ! bidx (nrows B) i ! bidx (ncols B) j)))))"

text \<open>\<open>scipy.special.expit\<close>.\<close>

definition sigmoid :: "real \<Rightarrow> real" where
  "sigmoid x = 1 / (1 + exp (- x))"

subsection \<open>The library operations\<close>

text \<open>
  \<open>pinv\<close> returns an array for every array; \<open>inv\<close> raises \<open>LinAlgError\<close> on a singular
  matrix; \<open>slogdet\<close> returns the pair of the sign and the logarithm of the absolute value
  of the determinant, which is minus infinity (\<open>Inl NonFinite\<close>) for a singular matrix.
\<close>

record linalg =
  np_pinv :: "mat \<Rightarrow> mat"
  np_inv :: "mat \<Rightarrow> error + mat"
  np_slogdet :: "mat \<Rightarrow> error + (real \<times> real)"

text \<open>
  \<open>minimize(fun, x0, bounds, method="L-BFGS-B")\<close>: the objective, the starting point and
  the lower bounds; the result carries \<open>res.x\<close> and \<open>res.fun\<close>. An exception of the
  objective or of the optimizer is the \<open>Inl\<close> outcome.
\<close>

type_synonym minimizer =
  "(theta \<Rightarrow> error + real) \<Rightarrow> theta \<Rightarrow> theta \<Rightarrow> error + (theta \<times> real)"

subsection \<open>Kernel\<close>

text \<open>\<open>np.sum(X ** 2, 1)\<close>\<close>

definition row_sq_sums :: "mat \<Rightarrow> vec" where
  "row_sq_sums X = map (\<lambda>x. \<Sum>k<length x. (x ! k)\<^sup>2) X"

text \<open>A double of magnitude \<open>2^1024\<close> or more is an infinity.\<close>

definition dbl_overflow :: real where
  "dbl_overflow = 2 ^ 1024"

text \<open>
  \<open>exp_kernel\<close>: the squared distances are the broadcast sum of the two vectors of squared
  norms minus twice \<open>np.dot(X1, X2.T)\<close>, which raises when the feature dimensions differ.
  \<open>theta[1] ** 2\<close> is an infinity from \<open>dbl_overflow\<close> on, and then every entry of the
  product, if it has any, is an infinity or a nan. \<open>-0.5 / theta[0] ** 2\<close> is minus infinity for a zero
  length scale: the exponential is \<open>0\<close> where the squared distance is positive, and a nan
  or an infinity where it is not. In the doubles of the source the squared distance of a
  point to itself need not be \<open>0\<close>: \<open>np.sum\<close> and \<open>np.dot\<close> round differently, and the
  difference of the two can be negative; the embedding does not show this.
\<close>

definition exp_kernel :: "mat \<Rightarrow> mat \<Rightarrow> theta \<Rightarrow> error + mat" where
  "exp_kernel X1 X2 th =
     and_then (matmul_T X1 X2) (\<lambda>D.
       let s1 = row_sq_sums X1;
           s2 = row_sq_sums X2;
           sqdist = mk_mat (nrows X1) (nrows X2) (\<lambda>i j. s1 ! i + s2 ! j - 2 * D ! i ! j)
       in if dbl_overflow \<le> (snd th)\<^sup>2 then
            (if list_all (\<lambda>row. row = []) sqdist then Inr sqdist else Inl NonFinite)
          else if fst th = 0 then
            (if list_all (list_all (\<lambda>q. 0 < q)) sqdist
             then Inr (map (map (\<lambda>q. (snd th)\<^sup>2 * 0)) sqdist)
             else Inl NonFinite)
          else Inr (map (map (\<lambda>q. (snd th)\<^sup>2 * exp (- 0.5 / (fst th)\<^sup>2 * q))) sqdist))"

text \<open>The default of the parameter \<open>nu\<close> of \<open>K_\<close>.\<close>

definition nu_default :: real where
  "nu_default = 1 / 100000"

text \<open>
  The method \<open>K_\<close> is \<open>K_cov\<close> here, and \<open>W_\<close> is \<open>W_mat\<close>: a name cannot end in
  an underscore. \<open>K_\<close> returns a number when \<open>diag_only\<close> is set and a matrix otherwise.
  The two branches are \<open>K_diag\<close> and \<open>K_full\<close>; \<open>K_cov\<close> chooses between them.
\<close>

definition K_diag :: "theta \<Rightarrow> real \<Rightarrow> real" where
  "K_diag th nu = (snd th)\<^sup>2 + nu"

definition K_full :: "mat \<Rightarrow> theta \<Rightarrow> real \<Rightarrow> error + mat" where
  "K_full X th nu =
     and_then (exp_kernel X X th) (\<lambda>K. mat_bin (+) K (smul nu (eye (nrows X))))"

datatype kval = Scalar real | Matrix mat

definition K_cov :: "mat \<Rightarrow> theta \<Rightarrow> bool \<Rightarrow> real \<Rightarrow> error + kval" where
  "K_cov X th diag_only nu =
     (if diag_only then Inr (Scalar (K_diag th nu))
      else and_then (K_full X th nu) (\<lambda>K. Inr (Matrix K)))"

subsection \<open>Weights and posterior mode\<close>

definition W_mat :: "vec \<Rightarrow> mat" where
  "W_mat a = (let r = map (\<lambda>x. sigmoid x * (1 - sigmoid x)) a in diag r)"

text \<open>
  The loop \<open>for i in range(max_iter)\<close> of \<open>posterior_mode\<close>, by recursion over the range.
  The last argument counts the bodies run so far; the count is returned with the iterate.
  \<open>break\<close> returns at once.
\<close>

fun pm_loop ::
  "linalg \<Rightarrow> mat \<Rightarrow> vec \<Rightarrow> mat \<Rightarrow> real \<Rightarrow> nat list \<Rightarrow> vec \<Rightarrow> nat \<Rightarrow> error + (vec \<times> nat)" where
  "pm_loop la I y K_a tol [] a_h k = Inr (a_h, k)"
| "pm_loop la I y K_a tol (i # rest) a_h k =
     (let W = W_mat a_h in
      and_then (matmul W K_a) (\<lambda>WK.
      and_then (mat_bin (+) I WK) (\<lambda>Q.
      let Q_inv = np_pinv la Q in
      and_then (matmul K_a Q_inv) (\<lambda>KQ.
      and_then (vec_bin (-) y (map sigmoid a_h)) (\<lambda>g.
      and_then (mat_vec W a_h) (\<lambda>Wa.
      and_then (vec_bin (+) g Wa) (\<lambda>rhs.
      and_then (mat_vec KQ rhs) (\<lambda>a_h_new.
      and_then (vec_bin (-) a_h_new a_h) (\<lambda>d.
      let a_h_diff = map abs d in
      if \<not> list_ex (\<lambda>x. x > tol) a_h_diff then Inr (a_h_new, Suc k)
      else pm_loop la I y K_a tol rest a_h_new (Suc k))))))))))"

definition posterior_mode ::
  "linalg \<Rightarrow> mat \<Rightarrow> vec \<Rightarrow> mat \<Rightarrow> int \<Rightarrow> real \<Rightarrow> error + vec" where
  "posterior_mode la X y K_a max_iter tol =
     (let a_h = zeros_like y;
          I = eye (nrows X)
      in and_then (pm_loop la I y K_a tol [0..<nat max_iter] a_h 0) (\<lambda>(a_h, k). Inr a_h))"

text \<open>The defaults of \<open>max_iter\<close> and \<open>tol\<close>.\<close>

definition max_iter_default :: int where
  "max_iter_default = 10"

definition tol_default :: real where
  "tol_default = 1 / 1000000000"


subsection \<open>The objective\<close>

text \<open>
  \<open>nll_fn(X, y)\<close> returns the closure \<open>nll\<close>; \<open>nll_fn la X y\<close> is that closure, a
  function of \<open>theta\<close>. \<open>ravel\<close> leaves a list as it is.
\<close>

definition nll_fn :: "linalg \<Rightarrow> mat \<Rightarrow> vec \<Rightarrow> theta \<Rightarrow> error + real" where
  "nll_fn la X y th =
     and_then (K_full X th nu_default) (\<lambda>K_a.
     and_then (np_inv la K_a) (\<lambda>K_a_inv.
     and_then (posterior_mode la X y K_a max_iter_default tol_default) (\<lambda>a_h.
     let W = W_mat a_h in
     and_then (vec_mat a_h K_a_inv) (\<lambda>aK.
     and_then (dot aK a_h) (\<lambda>q.
     and_then (np_slogdet la K_a) (\<lambda>(sign1, ld1).
     and_then (mat_bin (+) W K_a_inv) (\<lambda>S.
     and_then (np_slogdet la S) (\<lambda>(sign2, ld2).
     and_then (dot y a_h) (\<lambda>ya.
     let ll = - 0.5 * q - 0.5 * ld1 - 0.5 * ld2 + ya
              - (\<Sum>k<length a_h. ln (1 + exp (a_h ! k)))
     in Inr (- ll))))))))))"

subsection \<open>The model object\<close>

text \<open>
  The attributes of a \<open>GPC\<close> object. \<open>__init__\<close> assigns \<open>theta = None\<close> only: \<open>self_X\<close>
  and \<open>self_y\<close> are \<open>None\<close> while the attribute does not exist, \<open>self_theta\<close> is \<open>None\<close>
  while the attribute holds Python's \<open>None\<close>.
\<close>

record GPC =
  self_X :: "mat option"
  self_y :: "vec option"
  self_theta :: "theta option"

definition GPC_init :: GPC where
  "GPC_init = \<lparr>self_X = None, self_y = None, self_theta = None\<rparr>"

text \<open>
  A method returns its outcome and the object as the call leaves it. Reading a missing
  attribute raises \<open>AttributeError\<close>; \<open>K_\<close> hands \<open>theta\<close> on to \<open>exp_kernel\<close>, where
  \<open>theta[1]\<close> raises \<open>TypeError\<close> for \<open>None\<close> (the squared distances of \<open>X\<close> to itself
  are computed before and do not fail).
\<close>

definition mean_var ::
  "linalg \<Rightarrow> GPC \<Rightarrow> mat \<Rightarrow> (error + (vec \<times> vec)) \<times> GPC" where
  "mean_var la self X_test =
     ((case self_X self of None \<Rightarrow> Inl (AttributeError ''X'') | Some X \<Rightarrow>
       (case self_theta self of None \<Rightarrow> Inl TypeError | Some th \<Rightarrow>
        and_then (K_full X th nu_default) (\<lambda>K_a.
        and_then (exp_kernel X X_test th) (\<lambda>K_s.
        (case self_y self of None \<Rightarrow> Inl (AttributeError ''y'') | Some y \<Rightarrow>
         and_then (posterior_mode la X y K_a max_iter_default tol_default) (\<lambda>a_h.
         let W_inv = np_pinv la (W_mat a_h) in
         and_then (mat_bin (+) W_inv K_a) (\<lambda>S.
         let R_inv = np_pinv la S in
         and_then (vec_bin (-) y (map sigmoid a_h)) (\<lambda>g.
         and_then (matT_vec K_s g) (\<lambda>a_test_mu.
         let c = K_diag th nu_default in
         and_then (matmul R_inv K_s) (\<lambda>RK.
         and_then (mat_bin (\<lambda>a b. a * b) RK K_s) (\<lambda>P.
         let a_test_var = map (\<lambda>s. c - s) (col_sums P)
         in Inr (a_test_mu, a_test_var)))))))))))),
      self)"

text \<open>
  \<open>predict\<close>: \<open>1 + pi * a_var / 8\<close> must be positive for the square root and the division
  to give a number.
\<close>

definition predict :: "linalg \<Rightarrow> GPC \<Rightarrow> mat \<Rightarrow> (error + vec) \<times> GPC" where
  "predict la self X_test =
     (case mean_var la self X_test of (r, self') \<Rightarrow>
        (and_then r (\<lambda>(a_mu, a_var).
           if list_ex (\<lambda>v. 1 + pi * v / 8 \<le> 0) a_var then Inl NonFinite
           else let kappa = map (\<lambda>v. 1 / sqrt (1 + pi * v / 8)) a_var in
                and_then (vec_bin (\<lambda>a b. a * b) kappa a_mu) (\<lambda>z. Inr (map sigmoid z))),
         self'))"

text \<open>
  \<open>predict_params\<close> reads the name \<open>y\<close> where \<open>mean_var\<close> reads \<open>self.y\<close>: the name is
  looked up at module level, \<open>global_y\<close>, and \<open>NameError\<close> is raised when it is not bound.
  It inverts with \<open>inv\<close> where \<open>mean_var\<close> uses \<open>pinv\<close>.
\<close>

definition predict_params ::
  "linalg \<Rightarrow> vec option \<Rightarrow> GPC \<Rightarrow> mat \<Rightarrow> (error + (vec \<times> vec)) \<times> GPC" where
  "predict_params la global_y self X_test =
     ((case self_X self of None \<Rightarrow> Inl (AttributeError ''X'') | Some X \<Rightarrow>
       (case self_theta self of None \<Rightarrow> Inl TypeError | Some th \<Rightarrow>
        and_then (K_full X th nu_default) (\<lambda>K_a.
        and_then (exp_kernel X X_test th) (\<lambda>K_s.
        (case global_y of None \<Rightarrow> Inl (NameError ''y'') | Some y \<Rightarrow>
         and_then (posterior_mode la X y K_a max_iter_default tol_default) (\<lambda>a_h.
         and_then (np_inv la (W_mat a_h)) (\<lambda>W_inv.
         and_then (mat_bin (+) W_inv K_a) (\<lambda>S.
         and_then (np_inv la S) (\<lambda>R_inv.
         and_then (vec_bin (-) y (map sigmoid a_h)) (\<lambda>g.
         and_then (matT_vec K_s g) (\<lambda>a_test_mu.
         let c = K_diag th nu_default in
         and_then (matmul R_inv K_s) (\<lambda>RK.
         and_then (mat_bin (\<lambda>a b. a * b) RK K_s) (\<lambda>P.
         let a_test_var = map (\<lambda>s. c - s) (col_sums P)
         in Inr (a_test_mu, a_test_var)))))))))))))),
      self)"

text \<open>
  \<open>fit\<close> assigns \<open>X\<close> and \<open>y\<close>, then minimises from \<open>[1, 1]\<close> with the lower bounds
  \<open>1e-3\<close>, and assigns \<open>theta\<close> when the optimizer returns. An exception of \<open>minimize\<close>
  leaves the object as the two assignments made it. The printed line is not modelled.
\<close>

definition fit :: "linalg \<Rightarrow> minimizer \<Rightarrow> GPC \<Rightarrow> mat \<Rightarrow> vec \<Rightarrow> (error + unit) \<times> GPC" where
  "fit la minimize self X y =
     (let self1 = self\<lparr>self_X := Some X\<rparr>;
          self2 = self1\<lparr>self_y := Some y\<rparr>
      in case minimize (nll_fn la X y) (1, 1) (1 / 1000, 1 / 1000) of
           Inl e \<Rightarrow> (Inl e, self2)
         | Inr (x, f) \<Rightarrow> (Inr (), self2\<lparr>self_theta := Some x\<rparr>))"

subsection \<open>The formulas of the specification\<close>

text \<open>
  These definitions follow the words of the specification, not the source.
  The Newton update of the specification, \<open>a_new = K_a (pinv (I + W K_a)) (y - sigmoid a +
  W a)\<close> with \<open>W = diag (sigmoid a (1 - sigmoid a))\<close>, on \<open>n\<close> points, and its
  iteration: at most \<open>m\<close> updates, stopping after the first update that moves no coordinate
  by more than \<open>tol\<close>.
\<close>

definition spec_W :: "nat \<Rightarrow> vec \<Rightarrow> mat" where
  "spec_W n a = mk_mat n n (\<lambda>i j. if i = j then sigmoid (a ! i) * (1 - sigmoid (a ! i)) else 0)"

definition spec_mm :: "nat \<Rightarrow> mat \<Rightarrow> mat \<Rightarrow> mat" where
  "spec_mm n A B = mk_mat n n (\<lambda>i j. \<Sum>k<n. A ! i ! k * B ! k ! j)"

definition spec_mv :: "nat \<Rightarrow> mat \<Rightarrow> vec \<Rightarrow> vec" where
  "spec_mv n A v = mk_vec n (\<lambda>i. \<Sum>k<n. A ! i ! k * v ! k)"

definition spec_update :: "linalg \<Rightarrow> nat \<Rightarrow> mat \<Rightarrow> vec \<Rightarrow> vec \<Rightarrow> vec" where
  "spec_update la n K_a y a =
     (let W = spec_W n a;
          WK = spec_mm n W K_a;
          Q = mk_mat n n (\<lambda>i j. (if i = j then 1 else 0) + WK ! i ! j);
          Wa = spec_mv n W a;
          b = mk_vec n (\<lambda>i. y ! i - sigmoid (a ! i) + Wa ! i)
      in spec_mv n (spec_mm n K_a (np_pinv la Q)) b)"

fun spec_posterior_mode ::
  "linalg \<Rightarrow> nat \<Rightarrow> mat \<Rightarrow> vec \<Rightarrow> real \<Rightarrow> nat \<Rightarrow> vec \<Rightarrow> vec" where
  "spec_posterior_mode la n K_a y tol 0 a = a"
| "spec_posterior_mode la n K_a y tol (Suc m) a =
     (let a_new = spec_update la n K_a y a
      in if list_all (\<lambda>i. \<bar>a_new ! i - a ! i\<bar> \<le> tol) [0..<n] then a_new
         else spec_posterior_mode la n K_a y tol m a_new)"



text \<open>
  The log marginal likelihood of the specification,
  \<open>-0.5 a\<^sup>T K_a\<^sup>-\<^sup>1 a - 0.5 logdet K_a - 0.5 logdet (W + K_a\<^sup>-\<^sup>1) + y\<^sup>T a - \<Sigma> log (1 + exp a)\<close>,
  from the inverse of \<open>K_a\<close>, the two log-determinants, the labels and the mode, and the
  matrix \<open>W + K_a\<^sup>-\<^sup>1\<close> with \<open>W\<close> built from the mode.
\<close>

definition spec_ll :: "mat \<Rightarrow> real \<Rightarrow> real \<Rightarrow> vec \<Rightarrow> vec \<Rightarrow> real" where
  "spec_ll K_inv logdet_K logdet_WK y a =
     (let n = length a
      in - (1 / 2) * (\<Sum>j<n. (\<Sum>i<n. a ! i * K_inv ! i ! j) * a ! j)
         - (1 / 2) * logdet_K - (1 / 2) * logdet_WK
         + (\<Sum>i<n. y ! i * a ! i)
         - (\<Sum>i<n. ln (1 + exp (a ! i))))"

definition spec_W_plus :: "nat \<Rightarrow> vec \<Rightarrow> mat \<Rightarrow> mat" where
  "spec_W_plus n a K_inv = mk_mat n n (\<lambda>i j. spec_W n a ! i ! j + K_inv ! i ! j)"

text \<open>
  What the embedding asks of the library: the pseudo-inverse and the inverse of a square
  matrix have its shape.
\<close>

definition square_preserving :: "linalg \<Rightarrow> bool" where
  "square_preserving la \<longleftrightarrow>
     (\<forall>n M. is_mat n n M \<longrightarrow> is_mat n n (np_pinv la M)) \<and>
     (\<forall>n M M'. is_mat n n M \<and> np_inv la M = Inr M' \<longrightarrow> is_mat n n M')"

subsection \<open>Library instances for concrete runs\<close>

text \<open>
  On a diagonal matrix the pseudo-inverse and the inverse replace each diagonal entry that
  is not zero by its reciprocal. \<open>linalg_diag\<close> is \<open>numpy.linalg\<close> on diagonal matrices,
  which is all that the concrete runs below pass to it (their matrices are \<open>1 \<times> 1\<close>).
  The determinant is expanded along the first row.
\<close>

fun det :: "mat \<Rightarrow> real" where
  "det [] = 1"
| "det (r # rs) =
     (\<Sum>j<length r. (- 1) ^ j * r ! j * det (map (\<lambda>row. take j row @ drop (Suc j) row) rs))"

definition recip0 :: "real \<Rightarrow> real" where
  "recip0 x = (if x = 0 then 0 else 1 / x)"

definition diag_entries :: "mat \<Rightarrow> vec" where
  "diag_entries M = map (\<lambda>i. M ! i ! i) [0..<length M]"

definition linalg_diag :: linalg where
  "linalg_diag =
     \<lparr>np_pinv = (\<lambda>M. map (map recip0) M),
      np_inv = (\<lambda>M. if list_ex (\<lambda>x. x = 0) (diag_entries M) then Inl LinAlgError
                     else Inr (map (map recip0) M)),
      np_slogdet = (\<lambda>M. let p = det M
                         in if p = 0 then Inl NonFinite else Inr (sgn p, ln \<bar>p\<bar>))\<rparr>"

text \<open>
  An optimizer that evaluates the objective at the starting point and returns that point.
  \<open>minimize\<close> evaluates the objective at \<open>x0\<close> before anything else, and an exception
  raised there leaves \<open>minimize\<close> as it is.
\<close>

definition minimize_at_x0 :: minimizer where
  "minimize_at_x0 f x0 lower = and_then (f x0) (\<lambda>v. Inr (x0, v))"

section \<open>Properties\<close>

lemma and_then_Inr [simp]: "and_then (Inr v) f = f v"
  by (simp add: and_then_def)

lemma and_then_Inl [simp]: "and_then (Inl e) f = Inl e"
  by (simp add: and_then_def)

subsection \<open>Shapes\<close>

lemma length_mk_vec [simp]: "length (mk_vec n f) = n"
  by (simp add: mk_vec_def)

lemma nth_mk_vec [simp]: "i < n \<Longrightarrow> mk_vec n f ! i = f i"
  by (simp add: mk_vec_def)

lemma length_mk_mat [simp]: "length (mk_mat r c f) = r"
  by (simp add: mk_mat_def)

lemma nth_mk_mat [simp]: "i < r \<Longrightarrow> mk_mat r c f ! i = mk_vec c (f i)"
  by (simp add: mk_mat_def mk_vec_def)

lemma nrows_mk_mat [simp]: "nrows (mk_mat r c f) = r"
  by (simp add: nrows_def)

lemma ncols_mk_mat: "ncols (mk_mat r c f) = (if r = 0 then 0 else c)"
  by (cases r) (simp_all add: ncols_def mk_mat_def upt_conv_Cons del: upt_Suc)

lemma ncols_mk_mat_square [simp]: "ncols (mk_mat n n f) = n"
  by (simp add: ncols_mk_mat)

lemma is_mat_mk_mat [simp]: "is_mat r c (mk_mat r c f)"
  by (simp add: is_mat_def mk_mat_def list_all_iff)

lemma mk_mat_cong:
  "(\<And>i j. i < r \<Longrightarrow> j < c \<Longrightarrow> f i j = g i j) \<Longrightarrow> mk_mat r c f = mk_mat r c g"
  by (simp add: mk_mat_def)

lemma mk_vec_cong: "(\<And>i. i < n \<Longrightarrow> f i = g i) \<Longrightarrow> mk_vec n f = mk_vec n g"
  by (simp add: mk_vec_def)

lemma is_mat_nrows: "is_mat r c A \<Longrightarrow> nrows A = r"
  by (simp add: is_mat_def nrows_def)

lemma is_mat_ncols_square: "is_mat n n A \<Longrightarrow> ncols A = n"
  by (cases A) (auto simp: is_mat_def ncols_def)

lemma bidx_less [simp]: "i < n \<Longrightarrow> bidx n i = i"
  by (auto simp: bidx_def)

lemma bdim_same [simp]: "bdim n n = Some n"
  by (simp add: bdim_def)

lemma vec_bin_same:
  "length u = n \<Longrightarrow> length v = n \<Longrightarrow>
   vec_bin f u v = Inr (mk_vec n (\<lambda>i. f (u ! i) (v ! i)))"
  by (simp add: vec_bin_def cong: mk_vec_cong)

lemma mat_bin_square:
  "is_mat n n A \<Longrightarrow> is_mat n n B \<Longrightarrow>
   mat_bin f A B = Inr (mk_mat n n (\<lambda>i j. f (A ! i ! j) (B ! i ! j)))"
  by (simp add: mat_bin_def is_mat_nrows is_mat_ncols_square cong: mk_mat_cong)

lemma matmul_square:
  "is_mat n n A \<Longrightarrow> is_mat n n B \<Longrightarrow>
   matmul A B = Inr (mk_mat n n (\<lambda>i j. \<Sum>k<n. A ! i ! k * B ! k ! j))"
  by (simp add: matmul_def is_mat_nrows is_mat_ncols_square)

lemma mat_vec_square:
  "is_mat n n A \<Longrightarrow> length v = n \<Longrightarrow>
   mat_vec A v = Inr (mk_vec n (\<lambda>i. \<Sum>k<n. A ! i ! k * v ! k))"
  by (simp add: mat_vec_def is_mat_nrows is_mat_ncols_square)

lemma is_mat_eye [simp]: "is_mat n n (eye n)"
  by (simp add: eye_def)

lemma is_mat_diag [simp]: "is_mat (length r) (length r) (diag r)"
  by (simp add: diag_def)

lemma is_mat_W_mat [simp]: "is_mat (length a) (length a) (W_mat a)"
  using is_mat_diag [of "map (\<lambda>x. sigmoid x * (1 - sigmoid x)) a"]
  by (simp add: W_mat_def)

lemma map_map_mk_mat: "map (map h) (mk_mat r c f) = mk_mat r c (\<lambda>i j. h (f i j))"
  by (simp add: mk_mat_def)

lemma smul_mk_mat: "smul a (mk_mat r c f) = mk_mat r c (\<lambda>i j. a * f i j)"
  by (simp add: smul_def map_map_mk_mat)

subsection \<open>Frame\<close>

text \<open>
  C10: \<open>predict\<close>, \<open>mean_var\<close> and \<open>predict_params\<close> leave the object as they found it:
  \<open>X\<close>, \<open>y\<close> and \<open>theta\<close> are unchanged, whatever the outcome of the call.
\<close>

theorem predictive_methods_read_only:
  "snd (mean_var la self X_test) = self \<and>
   snd (predict la self X_test) = self \<and>
   snd (predict_params la global_y self X_test) = self"
  by (simp add: mean_var_def predict_def predict_params_def split: prod.splits)


subsection \<open>Use before fit\<close>

text \<open>
  C2, as the source has it: on an object whose \<open>theta\<close> is still \<open>None\<close>, each of
  \<open>mean_var\<close>, \<open>predict\<close> and \<open>predict_params\<close> raises and returns no result. The
  exception is \<open>AttributeError\<close> while the attribute \<open>X\<close> does not exist (a freshly
  constructed object) and \<open>TypeError\<close> once \<open>X\<close> exists.
\<close>

theorem unfitted_model_raises:
  "self_theta self = None \<Longrightarrow>
   fst (mean_var la self X_test) =
     Inl (if self_X self = None then AttributeError ''X'' else TypeError) \<and>
   fst (predict la self X_test) =
     Inl (if self_X self = None then AttributeError ''X'' else TypeError) \<and>
   fst (predict_params la global_y self X_test) =
     Inl (if self_X self = None then AttributeError ''X'' else TypeError)"
  by (simp add: mean_var_def predict_def predict_params_def split: option.splits)

theorem unfitted_model_raises_witness:
  "self_theta GPC_init = None \<and>
   fst (mean_var linalg_diag GPC_init [[0]]) = Inl (AttributeError ''X'') \<and>
   fst (predict linalg_diag GPC_init [[0]]) = Inl (AttributeError ''X'') \<and>
   fst (predict_params linalg_diag (Some [1]) GPC_init [[0]]) = Inl (AttributeError ''X'')"
  using unfitted_model_raises [of GPC_init linalg_diag "[[0]]" "Some [1]"]
  by (simp add: GPC_init_def)

text \<open>
  The exception of \<open>predict\<close> on a freshly constructed object is not the
  \<open>NotFittedError\<close> of the specification.
\<close>

theorem unfitted_predict_not_NotFittedError:
  "fst (predict linalg_diag GPC_init [[0]]) \<noteq> Inl NotFittedError"
  by (simp add: predict_def mean_var_def GPC_init_def)

subsection \<open>Kernel matrix\<close>

lemma one_less_dbl_overflow: "1 < dbl_overflow"
  unfolding dbl_overflow_def by (rule one_less_power) simp_all

lemma not_overflow_1 [simp]: "\<not> dbl_overflow \<le> 1"
  using one_less_dbl_overflow by simp

lemma exp_kernel_shape:
  assumes "exp_kernel X1 X2 th = Inr K"
  shows "is_mat (length X1) (length X2) K"
proof -
  have m: "is_mat r c (map (map h) (mk_mat r c f))" for r c h f
    by (simp add: map_map_mk_mat)
  from assms show ?thesis
    by (auto simp: exp_kernel_def matmul_T_def nrows_def Let_def m split: if_splits)
qed

lemma K_full_shape:
  assumes "K_full X th nu = Inr K" and "length X = n"
  shows "is_mat n n K"
proof -
  from assms(1) obtain K0 where K0: "exp_kernel X X th = Inr K0"
    and K: "mat_bin (+) K0 (smul nu (eye (nrows X))) = Inr K"
    by (cases "exp_kernel X X th") (auto simp: K_full_def)
  have 0: "is_mat n n K0" using exp_kernel_shape [OF K0] assms(2) by simp
  have 1: "is_mat n n (smul nu (eye (nrows X)))"
    by (simp add: nrows_def assms(2) eye_def smul_mk_mat)
  from K show ?thesis by (auto simp: mat_bin_square [OF 0 1])
qed

subsection \<open>Lifecycle\<close>

lemma mk_mat_Suc0: "mk_mat (Suc 0) (Suc 0) f = [[f 0 0]]"
  by (simp add: mk_mat_def)

lemma K_full_1x1: "K_full [[0]] (1, 1) nu = Inr [[1 + nu]]"
  by (simp add: K_full_def exp_kernel_def matmul_T_def ncols_def nrows_def row_sq_sums_def
      mat_bin_def eye_def smul_def mk_mat_Suc0 bidx_def bdim_def Let_def)

lemma pm_loop_shape_error:
  "ncols (W_mat a_h) \<noteq> nrows K_a \<Longrightarrow>
   pm_loop la I y K_a tol (i # rest) a_h k = Inl ValueError"
  by (simp add: matmul_def)

text \<open>One point and two labels: the first product of the Newton loop raises.\<close>

lemma nll_fn_two_labels: "nll_fn linalg_diag [[0]] [1, 0] (1, 1) = Inl ValueError"
  apply (simp add: nll_fn_def K_full_1x1)
  apply (simp add: linalg_diag_def diag_entries_def nu_default_def recip0_def)
  apply (simp add: posterior_mode_def max_iter_default_def upt_conv_Cons zeros_like_def
      del: pm_loop.simps)
  apply (subst pm_loop_shape_error)
   apply (simp_all add: W_mat_def diag_def ncols_mk_mat nrows_def)
  done

text \<open>
  C3 fails: a call of \<open>fit\<close> that raises leaves \<open>X\<close> and \<open>y\<close> assigned and \<open>theta\<close>
  \<open>None\<close>. Here \<open>X\<close> has one point and \<open>y\<close> two labels.
\<close>

theorem failed_fit_leaves_partial_state:
  "fit linalg_diag minimize_at_x0 GPC_init [[0]] [1, 0] =
     (Inl ValueError, \<lparr>self_X = Some [[0]], self_y = Some [1, 0], self_theta = None\<rparr>)"
  by (simp add: fit_def minimize_at_x0_def nll_fn_two_labels GPC_init_def)

text \<open>
  C3, as the source has it: a constructed object has none of \<open>X\<close>, \<open>y\<close>, \<open>theta\<close>; after
  any call of \<open>fit\<close> the object holds the \<open>X\<close> and \<open>y\<close> of the call; \<open>theta\<close> is set
  when the call returns, and is what it was before the call when the call raises.
\<close>

theorem fit_lifecycle:
  "self_X GPC_init = None \<and> self_y GPC_init = None \<and> self_theta GPC_init = None \<and>
   (fit la minimize self X y = (r, self') \<longrightarrow>
      self_X self' = Some X \<and> self_y self' = Some y \<and>
      (case r of Inr u \<Rightarrow> self_theta self' \<noteq> None
               | Inl e \<Rightarrow> self_theta self' = self_theta self))"
proof -
  have "self_X self' = Some X \<and> self_y self' = Some y \<and>
      (case r of Inr u \<Rightarrow> self_theta self' \<noteq> None
               | Inl e \<Rightarrow> self_theta self' = self_theta self)"
    if "fit la minimize self X y = (r, self')"
  proof (cases "minimize (nll_fn la X y) (1, 1) (1 / 1000, 1 / 1000)")
    case (Inl e)
    with that show ?thesis by (auto simp: fit_def Let_def)
  next
    case (Inr p)
    with that show ?thesis by (cases p) (auto simp: fit_def Let_def)
  qed
  then show ?thesis by (simp add: GPC_init_def)
qed

subsection \<open>Posterior mode\<close>

lemma W_mat_spec: "length a = n \<Longrightarrow> W_mat a = spec_W n a"
  unfolding W_mat_def diag_def spec_W_def Let_def
  by (simp, intro mk_mat_cong) simp

lemma is_mat_spec_W [simp]: "is_mat n n (spec_W n a)"
  by (simp add: spec_W_def)

lemma is_mat_spec_mm [simp]: "is_mat n n (spec_mm n A B)"
  by (simp add: spec_mm_def)

lemma length_spec_mv [simp]: "length (spec_mv n A v) = n"
  by (simp add: spec_mv_def)

lemma length_spec_update [simp]: "length (spec_update la n K_a y a) = n"
  by (simp add: spec_update_def Let_def)

lemma matmul_spec: "is_mat n n A \<Longrightarrow> is_mat n n B \<Longrightarrow> matmul A B = Inr (spec_mm n A B)"
  by (simp add: matmul_square spec_mm_def)

lemma mat_vec_spec: "is_mat n n A \<Longrightarrow> length v = n \<Longrightarrow> mat_vec A v = Inr (spec_mv n A v)"
  by (simp add: mat_vec_square spec_mv_def)

lemma eye_plus:
  assumes "is_mat n n B"
  shows "mat_bin (+) (eye n) B = Inr (mk_mat n n (\<lambda>i j. (if i = j then 1 else 0) + B ! i ! j))"
proof -
  have "mat_bin (+) (eye n) B = Inr (mk_mat n n (\<lambda>i j. eye n ! i ! j + B ! i ! j))"
    using assms by (intro mat_bin_square) simp_all
  also have "mk_mat n n (\<lambda>i j. eye n ! i ! j + B ! i ! j) =
      mk_mat n n (\<lambda>i j. (if i = j then 1 else 0) + B ! i ! j)"
    by (rule mk_mat_cong) (simp add: eye_def)
  finally show ?thesis .
qed

lemma any_exceeds:
  fixes d :: vec
  assumes n: "length d = n"
  shows "list_ex (\<lambda>x. x > tol) (map abs d) \<longleftrightarrow> \<not> list_all (\<lambda>i. \<bar>d ! i\<bar> \<le> tol) [0..<n]"
proof -
  have "(\<exists>x\<in>set d. tol < \<bar>x\<bar>) \<longleftrightarrow> (\<exists>i<n. tol < \<bar>d ! i\<bar>)"
    using n by (metis in_set_conv_nth)
  then have A: "list_ex (\<lambda>x. x > tol) (map abs d) \<longleftrightarrow> (\<exists>i<n. tol < \<bar>d ! i\<bar>)"
    by (simp add: list_ex_iff)
  have B: "list_all (\<lambda>i. \<bar>d ! i\<bar> \<le> tol) [0..<n] \<longleftrightarrow> (\<forall>i<n. \<bar>d ! i\<bar> \<le> tol)"
    by (auto simp: list_all_iff)
  show ?thesis unfolding A B by (auto simp: not_le)
qed

lemma pm_loop_Cons:
  assumes K: "is_mat n n K_a" and y: "length y = n" and a: "length a = n"
    and la: "square_preserving la"
  shows "pm_loop la (eye n) y K_a tol (i # rest) a k =
     (let a_new = spec_update la n K_a y a
      in if list_all (\<lambda>i. \<bar>a_new ! i - a ! i\<bar> \<le> tol) [0..<n] then Inr (a_new, Suc k)
         else pm_loop la (eye n) y K_a tol rest a_new (Suc k))"
proof -
  define W where "W = spec_W n a"
  define WK where "WK = spec_mm n W K_a"
  define Q where "Q = mk_mat n n (\<lambda>i j. (if i = j then 1 else 0) + WK ! i ! j)"
  define Wa where "Wa = spec_mv n W a"
  define g where "g = mk_vec n (\<lambda>i. y ! i - sigmoid (a ! i))"
  define b where "b = mk_vec n (\<lambda>i. y ! i - sigmoid (a ! i) + Wa ! i)"
  define KQ where "KQ = spec_mm n K_a (np_pinv la Q)"
  define a_new where "a_new = spec_mv n KQ b"
  define d where "d = mk_vec n (\<lambda>i. a_new ! i - a ! i)"
  have upd: "spec_update la n K_a y a = a_new"
    by (simp add: spec_update_def Let_def a_new_def KQ_def b_def Wa_def Q_def WK_def W_def)
  have 1: "W_mat a = W" using a by (simp add: W_mat_spec W_def)
  have W: "is_mat n n W" by (simp add: W_def)
  have 2: "matmul W K_a = Inr WK" using W K by (simp add: matmul_spec WK_def)
  have WK: "is_mat n n WK" by (simp add: WK_def)
  have 3: "mat_bin (+) (eye n) WK = Inr Q" using WK by (simp add: eye_plus Q_def)
  have Q: "is_mat n n Q" by (simp add: Q_def)
  have Qi: "is_mat n n (np_pinv la Q)" using la Q by (auto simp: square_preserving_def)
  have 4: "matmul K_a (np_pinv la Q) = Inr KQ" using K Qi by (simp add: matmul_spec KQ_def)
  have KQ: "is_mat n n KQ" by (simp add: KQ_def)
  have 5: "vec_bin (-) y (map sigmoid a) = Inr g"
    using y a by (simp add: vec_bin_same [of _ n] g_def cong: mk_vec_cong)
  have 6: "mat_vec W a = Inr Wa" using W a by (simp add: mat_vec_spec Wa_def)
  have 7: "vec_bin (+) g Wa = Inr b"
    by (simp add: vec_bin_same [of _ n] g_def Wa_def b_def cong: mk_vec_cong)
  have 8: "mat_vec KQ b = Inr a_new" using KQ by (simp add: mat_vec_spec a_new_def b_def)
  have 9: "vec_bin (-) a_new a = Inr d"
    using a by (simp add: vec_bin_same [of _ n] a_new_def d_def)
  have 10: "list_ex (\<lambda>x. x > tol) (map abs d) \<longleftrightarrow>
      \<not> list_all (\<lambda>i. \<bar>a_new ! i - a ! i\<bar> \<le> tol) [0..<n]"
  proof -
    have "list_all (\<lambda>i. \<bar>d ! i\<bar> \<le> tol) [0..<n] =
        list_all (\<lambda>i. \<bar>a_new ! i - a ! i\<bar> \<le> tol) [0..<n]"
      by (simp add: list_all_iff d_def)
    then show ?thesis using any_exceeds [of d n tol] by (simp add: d_def)
  qed
  show ?thesis
    by (simp add: 1 2 3 4 5 6 7 8 9 10 upd Let_def)
qed

lemma pm_loop_spec:
  assumes K: "is_mat n n K_a" and y: "length y = n" and la: "square_preserving la"
  shows "length a = n \<Longrightarrow>
    \<exists>k'. pm_loop la (eye n) y K_a tol rng a k =
            Inr (spec_posterior_mode la n K_a y tol (length rng) a, k') \<and>
          k' \<le> k + length rng"
proof (induction rng arbitrary: a k)
  case Nil
  then show ?case by simp
next
  case (Cons i rest)
  let ?a = "spec_update la n K_a y a"
  have len: "length ?a = n" by simp
  show ?case
  proof (cases "list_all (\<lambda>i. \<bar>?a ! i - a ! i\<bar> \<le> tol) [0..<n]")
    case True
    then show ?thesis
      by (simp add: pm_loop_Cons [OF K y Cons.prems la] Let_def del: pm_loop.simps)
  next
    case False
    from Cons.IH [OF len, of "Suc k"] obtain k' where
      "pm_loop la (eye n) y K_a tol rest ?a (Suc k) =
         Inr (spec_posterior_mode la n K_a y tol (length rest) ?a, k')"
      and "k' \<le> Suc k + length rest" by blast
    with False show ?thesis
      by (simp add: pm_loop_Cons [OF K y Cons.prems la] Let_def del: pm_loop.simps)
  qed
qed

lemma square_preserving_linalg_diag: "square_preserving linalg_diag"
  by (auto simp: square_preserving_def linalg_diag_def is_mat_def list_all_iff split: if_splits)

lemma posterior_mode_eq_spec:
  assumes "is_mat n n K_a" and "length X = n" and "length y = n" and "square_preserving la"
  shows "posterior_mode la X y K_a max_iter tol =
    Inr (spec_posterior_mode la n K_a y tol (nat max_iter) (replicate n 0))"
proof -
  have z: "zeros_like y = replicate n 0"
    using assms(3) by (simp add: zeros_like_def map_replicate_const)
  obtain k' where "pm_loop la (eye n) y K_a tol [0..<nat max_iter] (replicate n 0) 0 =
      Inr (spec_posterior_mode la n K_a y tol (length [0..<nat max_iter]) (replicate n 0), k')"
    using pm_loop_spec [OF assms(1) assms(3) assms(4), of "replicate n 0" tol "[0..<nat max_iter]" 0]
    by auto
  then show ?thesis
    by (simp add: posterior_mode_def z nrows_def assms(2))
qed


lemma length_spec_posterior_mode:
  "length a = n \<Longrightarrow> length (spec_posterior_mode la n K_a y tol m a) = n"
  by (induction m arbitrary: a) (simp_all add: Let_def)

text \<open>
  C4: on a training set of \<open>n\<close> points with an \<open>n \<times> n\<close> matrix \<open>K_a\<close>, \<open>posterior_mode\<close>
  returns what the iteration of the specification returns: it starts from the zero vector,
  applies the update \<open>K_a (pinv (I + W K_a)) (y - sigmoid a + W a)\<close> at most \<open>max_iter\<close>
  times, stops after the first update that moves no coordinate by more than \<open>tol\<close>, and
  returns the last iterate.
\<close>

theorem posterior_mode_refines_spec:
  assumes "is_mat n n K_a" and "length X = n" and "length y = n" and "square_preserving la"
  shows "posterior_mode la X y K_a max_iter tol =
    Inr (spec_posterior_mode la n K_a y tol (nat max_iter) (replicate n 0))"
  using assms by (rule posterior_mode_eq_spec)

lemma mk_vec_Suc0: "mk_vec (Suc 0) f = [f 0]"
  by (simp add: mk_vec_def)

lemma sigmoid_0: "sigmoid 0 = 1 / 2"
  by (simp add: sigmoid_def)

theorem posterior_mode_refines_spec_witness:
  "is_mat 1 1 [[1]] \<and> length [[0::real]] = 1 \<and> length [1::real] = 1 \<and>
   square_preserving linalg_diag \<and>
   posterior_mode linalg_diag [[0]] [1] [[1]] 1 (1 / 1000000000) = Inr [2 / 5]"
proof -
  have h: "is_mat 1 1 [[1]]" by (simp add: is_mat_def)
  have "spec_update linalg_diag 1 [[1]] [1] [0] = [2 / 5]"
    by (simp add: spec_update_def spec_W_def spec_mm_def spec_mv_def mk_mat_Suc0 mk_vec_Suc0
        sigmoid_0 linalg_diag_def recip0_def)
  then have "spec_posterior_mode linalg_diag 1 [[1]] [1] (1 / 1000000000) (nat 1) (replicate 1 0)
      = [2 / 5]"
    by (simp add: Let_def)
  with h square_preserving_linalg_diag
    posterior_mode_refines_spec [OF h _ _ square_preserving_linalg_diag,
      of "[[0]]" "[1]" 1 "1 / 1000000000"]
  show ?thesis by simp
qed

text \<open>
  C5: with \<open>max_iter = 0\<close> the loop runs no body and \<open>posterior_mode\<close> returns the
  initial vector unchanged: all zeros, one per label, so of length \<open>n\<close> for \<open>n\<close> labelled
  points.
\<close>

theorem posterior_mode_zero_iterations:
  "pm_loop la (eye (nrows X)) y K_a tol [0..<nat 0] (zeros_like y) 0
     = Inr (replicate (length y) 0, 0) \<and>
   posterior_mode la X y K_a 0 tol = Inr (replicate (length y) 0)"
  by (simp add: posterior_mode_def zeros_like_def map_replicate_const)









subsection \<open>A run on one point\<close>

lemma sigmoid_pos: "0 < sigmoid x"
  by (simp add: sigmoid_def add_pos_pos)

lemma sigmoid_less_1: "sigmoid x < 1"
  by (simp add: sigmoid_def add_pos_pos)

lemma weight_pos: "0 < sigmoid x * (1 - sigmoid x)"
  using sigmoid_pos [of x] sigmoid_less_1 [of x] by simp

lemma is_mat_1x1: "is_mat 1 1 [[x]]"
  by (simp add: is_mat_def)

lemma inv_1x1: "x \<noteq> 0 \<Longrightarrow> np_inv linalg_diag [[x]] = Inr [[1 / x]]"
  by (simp add: linalg_diag_def diag_entries_def recip0_def)

lemma pinv_1x1: "np_pinv linalg_diag [[x]] = [[recip0 x]]"
  by (simp add: linalg_diag_def)

lemma length_1_conv: "length a = 1 \<Longrightarrow> a = [a ! 0]"
  by (cases a) simp_all

lemma nu_default_pos: "0 < nu_default"
  by (simp add: nu_default_def)

subsection \<open>The objective\<close>

lemma vec_mat_square:
  "is_mat n n A \<Longrightarrow> length v = n \<Longrightarrow>
   vec_mat v A = Inr (mk_vec n (\<lambda>j. \<Sum>k<n. v ! k * A ! k ! j))"
  by (simp add: vec_mat_def is_mat_nrows is_mat_ncols_square)

lemma dot_same: "length u = n \<Longrightarrow> length v = n \<Longrightarrow> dot u v = Inr (\<Sum>k<n. u ! k * v ! k)"
  by (simp add: dot_def)

lemma nll_fn_eq_spec:
  assumes X: "is_mat n d X" and y: "length y = n" and sq: "square_preserving la"
  shows "nll_fn la X y th =
     and_then (K_full X th nu_default) (\<lambda>K_a.
     and_then (np_inv la K_a) (\<lambda>K_inv.
     let a_h = spec_posterior_mode la n K_a y tol_default (nat max_iter_default) (replicate n 0)
     in and_then (np_slogdet la K_a) (\<lambda>(sign1, logdet_K).
        and_then (np_slogdet la (spec_W_plus n a_h K_inv)) (\<lambda>(sign2, logdet_WK).
        Inr (- spec_ll K_inv logdet_K logdet_WK y a_h)))))"
proof (cases "K_full X th nu_default")
  case (Inl e)
  then show ?thesis by (simp add: nll_fn_def)
next
  case (Inr K_a)
  have len: "length X = n" using X by (simp add: is_mat_def)
  have K: "is_mat n n K_a" by (rule K_full_shape [OF Inr len])
  show ?thesis
  proof (cases "np_inv la K_a")
    case (Inl e)
    then show ?thesis by (simp add: nll_fn_def \<open>K_full X th nu_default = Inr K_a\<close>)
  next
    case inv: (Inr K_inv)
    define a_h where
      "a_h = spec_posterior_mode la n K_a y tol_default (nat max_iter_default) (replicate n 0)"
    have Ki: "is_mat n n K_inv" using sq K inv by (auto simp: square_preserving_def)
    have la: "length a_h = n" by (simp add: a_h_def length_spec_posterior_mode)
    have 2: "posterior_mode la X y K_a max_iter_default tol_default = Inr a_h"
      by (simp add: a_h_def posterior_mode_eq_spec [OF K len y sq])
    have 3: "vec_mat a_h K_inv = Inr (mk_vec n (\<lambda>j. \<Sum>k<n. a_h ! k * K_inv ! k ! j))"
      by (rule vec_mat_square [OF Ki la])
    have 4: "dot (mk_vec n (\<lambda>j. \<Sum>k<n. a_h ! k * K_inv ! k ! j)) a_h =
        Inr (\<Sum>j<n. (\<Sum>i<n. a_h ! i * K_inv ! i ! j) * a_h ! j)"
      using la by (simp add: dot_same [of _ n])
    have 6: "mat_bin (+) (W_mat a_h) K_inv = Inr (spec_W_plus n a_h K_inv)"
      using mat_bin_square [OF is_mat_spec_W Ki, of "(+)" a_h]
      by (simp add: W_mat_spec [OF la] spec_W_plus_def)
    have 8: "dot y a_h = Inr (\<Sum>i<n. y ! i * a_h ! i)"
      by (rule dot_same [OF y la])
    show ?thesis
      by (simp add: nll_fn_def \<open>K_full X th nu_default = Inr K_a\<close> inv 2 3 4 6 8 la
          spec_ll_def Let_def a_h_def [symmetric] split: sum.splits prod.splits)
  qed
qed

lemma overflow_1e160: "dbl_overflow \<le> (10 ^ 160)\<^sup>2"
  by (simp add: dbl_overflow_def)

lemma exp_kernel_overflow:
  "dbl_overflow \<le> (snd th)\<^sup>2 \<Longrightarrow> exp_kernel [[0]] [[0]] th = Inl NonFinite"
  by (simp add: exp_kernel_def matmul_T_def ncols_def nrows_def row_sq_sums_def mk_mat_Suc0
      Let_def)

lemma nll_fn_overflow: "nll_fn linalg_diag [[0]] [1] (1, 10 ^ 160) = Inl NonFinite"
proof -
  have "exp_kernel [[0]] [[0]] (1, 10 ^ 160) = Inl NonFinite"
    by (rule exp_kernel_overflow) (simp only: snd_conv overflow_1e160)
  then show ?thesis
    by (simp only: nll_fn_def K_full_def and_then_Inl)
qed

text \<open>
  C7 fails for some \<open>theta\<close> inside the bounds of \<open>fit\<close>: for the signal standard
  deviation \<open>1e160\<close> the square \<open>theta[1] ** 2\<close> is an infinity, the kernel matrix holds
  no number and the objective returns none.
\<close>

theorem nll_fn_overflow_not_a_number:
  "nll_fn linalg_diag [[0]] [1] (1, 10 ^ 160) = Inl NonFinite"
  by (rule nll_fn_overflow)

text \<open>
  C7, as the source has it: for \<open>n\<close> points and \<open>n\<close> labels the objective is \<open>-ll\<close>, with
  \<open>ll\<close> the log marginal likelihood of the specification, whenever \<open>K_\<close> returns a matrix
  of numbers \<open>K_a\<close>, \<open>inv\<close> returns \<open>K_a\<^sup>-\<^sup>1\<close> and \<open>slogdet\<close> returns the two
  log-determinants (the second component of its result, the logarithm of the absolute
  value of the determinant); \<open>a_h\<close> is the posterior mode for \<open>K_a\<close> and \<open>W\<close> is built from
  \<open>a_h\<close>. When one of the three does not return a number, the objective fails the same
  way, in this order.
\<close>

theorem nll_fn_returns_minus_ll:
  assumes "is_mat n d X" and "length y = n" and "square_preserving la"
  shows "nll_fn la X y th =
     and_then (K_full X th nu_default) (\<lambda>K_a.
     and_then (np_inv la K_a) (\<lambda>K_inv.
     let a_h = spec_posterior_mode la n K_a y tol_default (nat max_iter_default) (replicate n 0)
     in and_then (np_slogdet la K_a) (\<lambda>(sign1, logdet_K).
        and_then (np_slogdet la (spec_W_plus n a_h K_inv)) (\<lambda>(sign2, logdet_WK).
        Inr (- spec_ll K_inv logdet_K logdet_WK y a_h)))))"
  using assms by (rule nll_fn_eq_spec)

lemma slogdet_linalg_diag:
  "det M \<noteq> 0 \<Longrightarrow> np_slogdet linalg_diag M = Inr (sgn (det M), ln \<bar>det M\<bar>)"
  by (simp add: linalg_diag_def Let_def)

lemma det_W_plus_1x1:
  assumes "0 < k"
  shows "det (spec_W_plus 1 a [[k]]) \<noteq> 0"
proof -
  have "0 < sigmoid (a ! 0) * (1 - sigmoid (a ! 0)) + k"
    using weight_pos [of "a ! 0"] assms by (intro add_pos_pos) simp_all
  then show ?thesis
    by (simp add: spec_W_plus_def mk_mat_Suc0 spec_W_def)
qed

lemma nll_fn_1x1:
  "nll_fn linalg_diag [[0]] [1] (1, 1) =
     Inr (- spec_ll [[1 / (1 + nu_default)]] (ln \<bar>det [[1 + nu_default]]\<bar>)
            (ln \<bar>det (spec_W_plus 1
               (spec_posterior_mode linalg_diag 1 [[1 + nu_default]] [1] tol_default
                  (nat max_iter_default) (replicate 1 0))
               [[1 / (1 + nu_default)]])\<bar>)
            [1]
            (spec_posterior_mode linalg_diag 1 [[1 + nu_default]] [1] tol_default
               (nat max_iter_default) (replicate 1 0)))"
proof -
  have i: "np_inv linalg_diag [[1 + nu_default]] = Inr [[1 / (1 + nu_default)]]"
    using nu_default_pos by (intro inv_1x1) simp
  have d1: "det [[1 + nu_default]] \<noteq> 0" using nu_default_pos by simp
  have k: "0 < 1 / (1 + nu_default)" using nu_default_pos by simp
  have l: "length [1::real] = 1" by simp
  show ?thesis
    by (simp only: nll_fn_eq_spec [OF is_mat_1x1 l square_preserving_linalg_diag, of 0 "(1, 1)"]
        K_full_1x1 and_then_Inr i Let_def slogdet_linalg_diag [OF d1]
        slogdet_linalg_diag [OF det_W_plus_1x1 [OF k]] prod.case)
qed

theorem nll_fn_returns_minus_ll_witness:
  "is_mat 1 1 [[0]] \<and> length [1::real] = 1 \<and> square_preserving linalg_diag \<and>
   nll_fn linalg_diag [[0]] [1] (1, 1) =
     Inr (- spec_ll [[1 / (1 + nu_default)]] (ln \<bar>det [[1 + nu_default]]\<bar>)
            (ln \<bar>det (spec_W_plus 1
               (spec_posterior_mode linalg_diag 1 [[1 + nu_default]] [1] tol_default
                  (nat max_iter_default) (replicate 1 0))
               [[1 / (1 + nu_default)]])\<bar>)
            [1]
            (spec_posterior_mode linalg_diag 1 [[1 + nu_default]] [1] tol_default
               (nat max_iter_default) (replicate 1 0)))"
proof -
  have i: "np_inv linalg_diag [[1 + nu_default]] = Inr [[1 / (1 + nu_default)]]"
    using nu_default_pos by (intro inv_1x1) simp
  have d1: "det [[1 + nu_default]] \<noteq> 0" using nu_default_pos by simp
  have k: "0 < 1 / (1 + nu_default)" using nu_default_pos by simp
  have l: "length [1::real] = 1" by simp
  note eq = nll_fn_returns_minus_ll [OF is_mat_1x1 l square_preserving_linalg_diag,
      of 0 "(1, 1)"]
  have "nll_fn linalg_diag [[0]] [1] (1, 1) =
     Inr (- spec_ll [[1 / (1 + nu_default)]] (ln \<bar>det [[1 + nu_default]]\<bar>)
            (ln \<bar>det (spec_W_plus 1
               (spec_posterior_mode linalg_diag 1 [[1 + nu_default]] [1] tol_default
                  (nat max_iter_default) (replicate 1 0))
               [[1 / (1 + nu_default)]])\<bar>)
            [1]
            (spec_posterior_mode linalg_diag 1 [[1 + nu_default]] [1] tol_default
               (nat max_iter_default) (replicate 1 0)))"
    by (simp only: eq K_full_1x1 and_then_Inr i Let_def slogdet_linalg_diag [OF d1]
        slogdet_linalg_diag [OF det_W_plus_1x1 [OF k]] prod.case)
  with is_mat_1x1 [of 0] l square_preserving_linalg_diag show ?thesis
    by (intro conjI)
qed

text \<open>A fit that returns, on one point with one label.\<close>

theorem fit_lifecycle_witness:
  "self_X GPC_init = None \<and> self_y GPC_init = None \<and> self_theta GPC_init = None \<and>
   fst (fit linalg_diag minimize_at_x0 GPC_init [[0]] [1]) = Inr () \<and>
   snd (fit linalg_diag minimize_at_x0 GPC_init [[0]] [1]) =
     \<lparr>self_X = Some [[0]], self_y = Some [1], self_theta = Some (1, 1)\<rparr>"
proof -
  have "fit linalg_diag minimize_at_x0 GPC_init [[0]] [1] =
      (Inr (), \<lparr>self_X = Some [[0]], self_y = Some [1], self_theta = Some (1, 1)\<rparr>)"
    by (simp add: fit_def minimize_at_x0_def nll_fn_1x1 GPC_init_def)
  with fit_lifecycle [of linalg_diag minimize_at_x0 GPC_init "[[0]]" "[1]" "Inr ()"
      "\<lparr>self_X = Some [[0]], self_y = Some [1], self_theta = Some (1, 1)\<rparr>"]
  show ?thesis by simp
qed


subsection \<open>The two predictive accessors\<close>

lemma exp_kernel_1x1: "exp_kernel [[0]] [[0]] (1, 1) = Inr [[1]]"
  by (simp add: exp_kernel_def matmul_T_def ncols_def nrows_def row_sq_sums_def mk_mat_Suc0
      Let_def)

lemma posterior_mode_1x1:
  "\<exists>a0. posterior_mode linalg_diag [[0]] [y0] [[k]] max_iter_default tol_default = Inr [a0]"
proof -
  let ?a = "spec_posterior_mode linalg_diag 1 [[k]] [y0] tol_default (nat max_iter_default)
      (replicate 1 0)"
  have "posterior_mode linalg_diag [[0]] [y0] [[k]] max_iter_default tol_default = Inr ?a"
    by (rule posterior_mode_eq_spec [OF is_mat_1x1 _ _ square_preserving_linalg_diag]) simp_all
  moreover have "length ?a = 1" by (simp add: length_spec_posterior_mode)
  then have "?a = [?a ! 0]" by (rule length_1_conv)
  ultimately show ?thesis by metis
qed

lemma W_mat_1x1: "W_mat [a0] = [[sigmoid a0 * (1 - sigmoid a0)]]"
  by (simp add: W_mat_def diag_def mk_mat_Suc0)

lemmas eval_1x1 =
  matmul_def mat_bin_def vec_bin_def matT_vec_def col_sums_def nrows_def ncols_def
  bdim_def bidx_def mk_mat_Suc0 mk_vec_Suc0 K_diag_def

lemma mean_var_1x1:
  assumes "posterior_mode linalg_diag [[0]] [y0] [[1 + nu_default]] max_iter_default tol_default
     = Inr [a0]"
  shows "\<exists>v. fst (mean_var linalg_diag
            \<lparr>self_X = Some [[0]], self_y = Some [y0], self_theta = Some (1, 1)\<rparr> [[0]])
          = Inr ([y0 - sigmoid a0], [v])"
  by (simp add: mean_var_def K_full_1x1 exp_kernel_1x1 assms W_mat_1x1 pinv_1x1 eval_1x1)

lemma predict_params_1x1:
  assumes "posterior_mode linalg_diag [[0]] [y0] [[1 + nu_default]] max_iter_default tol_default
     = Inr [a0]"
  shows "\<exists>v. fst (predict_params linalg_diag (Some [y0])
            \<lparr>self_X = Some [[0]], self_y = Some y', self_theta = Some (1, 1)\<rparr> [[0]])
          = Inr ([y0 - sigmoid a0], [v])"
proof -
  let ?w = "sigmoid a0 * (1 - sigmoid a0)"
  have w: "?w \<noteq> 0" using weight_pos [of a0] by (metis less_irrefl)
  have "0 < 1 / ?w + (1 + nu_default)"
    using weight_pos [of a0] nu_default_pos by (intro add_pos_pos) simp_all
  then have s: "1 / ?w + (1 + nu_default) \<noteq> 0" by simp
  show ?thesis
    by (simp add: predict_params_def K_full_1x1 exp_kernel_1x1 assms W_mat_1x1
        inv_1x1 [OF w] inv_1x1 [OF s] eval_1x1)
qed

text \<open>
  C1 fails on the source. The object was fitted on the point \<open>0\<close> with the label \<open>1\<close>,
  \<open>theta = (1, 1)\<close>, and the module-level \<open>y\<close> holds the label \<open>0\<close>: the mean that
  \<open>predict_params\<close> returns at the test point \<open>0\<close> is negative, the mean that \<open>mean_var\<close>
  returns is positive. With no module-level \<open>y\<close>, \<open>predict_params\<close> raises \<open>NameError\<close>.
\<close>

theorem predict_params_reads_global_y:
  "fst (predict_params linalg_diag (Some [0])
          \<lparr>self_X = Some [[0]], self_y = Some [1], self_theta = Some (1, 1)\<rparr> [[0]])
   \<noteq> fst (mean_var linalg_diag
          \<lparr>self_X = Some [[0]], self_y = Some [1], self_theta = Some (1, 1)\<rparr> [[0]]) \<and>
   fst (predict_params linalg_diag None
          \<lparr>self_X = Some [[0]], self_y = Some [1], self_theta = Some (1, 1)\<rparr> [[0]])
   = Inl (NameError ''y'')"
proof -
  obtain a0 where a: "posterior_mode linalg_diag [[0]] [1] [[1 + nu_default]]
      max_iter_default tol_default = Inr [a0]"
    using posterior_mode_1x1 by blast
  obtain b0 where b: "posterior_mode linalg_diag [[0]] [0] [[1 + nu_default]]
      max_iter_default tol_default = Inr [b0]"
    using posterior_mode_1x1 by blast
  obtain v where v: "fst (mean_var linalg_diag
      \<lparr>self_X = Some [[0]], self_y = Some [1], self_theta = Some (1, 1)\<rparr> [[0]])
      = Inr ([1 - sigmoid a0], [v])"
    using mean_var_1x1 [OF a] by blast
  obtain u where u: "fst (predict_params linalg_diag (Some [0])
      \<lparr>self_X = Some [[0]], self_y = Some [1], self_theta = Some (1, 1)\<rparr> [[0]])
      = Inr ([0 - sigmoid b0], [u])"
    using predict_params_1x1 [OF b] by blast
  have "0 - sigmoid b0 < 1 - sigmoid a0"
    using sigmoid_pos [of b0] sigmoid_less_1 [of a0] by simp
  then have "0 - sigmoid b0 \<noteq> 1 - sigmoid a0" by simp
  moreover have "fst (predict_params linalg_diag None
          \<lparr>self_X = Some [[0]], self_y = Some [1], self_theta = Some (1, 1)\<rparr> [[0]])
      = Inl (NameError ''y'')"
    by (simp add: predict_params_def K_full_1x1 exp_kernel_1x1)
  ultimately show ?thesis
    unfolding u v by simp
qed


end
